theory Spec2Isabelle
  imports Main
begin

section \<open>Values shared by the models\<close>

text \<open>
  JSON-shaped values as the peer transport and the REST layer carry them. Numbers are
  the millisecond counts, sizes and counters of this code, all integral, so they are
  modelled as \<open>int\<close>.
\<close>

datatype json =
    JUndefined
  | JNull
  | JBool bool
  | JNum int
  | JStr string
  | JArr "json list"
  | JObj "(string \<times> json) list"

text \<open>JavaScript truthiness, as \<open>||\<close>, \<open>!!\<close> and \<open>if\<close> read it.\<close>

fun falsy :: "json \<Rightarrow> bool" where
  "falsy JUndefined = True"
| "falsy JNull = True"
| "falsy (JBool b) = (\<not> b)"
| "falsy (JNum n) = (n = 0)"
| "falsy (JStr s) = (s = [])"
| "falsy (JArr xs) = False"
| "falsy (JObj kvs) = False"

text \<open>
  A thrown error: only \<open>instanceof ServerError\<close> and \<open>.message\<close> are ever read by
  the code modelled here.
\<close>

datatype js_error = ServerError string | OtherError string

fun message :: "js_error \<Rightarrow> string" where
  "message (ServerError m) = m"
| "message (OtherError m) = m"

text \<open>\<open>String.prototype.split\<close> with a one-character separator.\<close>

fun js_split :: "char \<Rightarrow> string \<Rightarrow> string list" where
  "js_split sep [] = [[]]"
| "js_split sep (c # cs) =
     (if c = sep then [] # js_split sep cs
      else (case js_split sep cs of
              [] \<Rightarrow> [[c]]
            | p # ps \<Rightarrow> (c # p) # ps))"

text \<open>Array destructuring: a position past the end reads \<open>undefined\<close>.\<close>

definition element_at :: "'a list \<Rightarrow> nat \<Rightarrow> 'a option" where
  "element_at xs i = (if i < length xs then Some (xs ! i) else None)"

text \<open>A property key: \<open>obj[undefined]\<close> reads the property named \<open>undefined\<close>.\<close>

definition property_key :: "string option \<Rightarrow> string" where
  "property_key k = (case k of None \<Rightarrow> ''undefined'' | Some s \<Rightarrow> s)"

text \<open>Substring test, used to say what a peer-visible message contains.\<close>

fun starts_with :: "string \<Rightarrow> string \<Rightarrow> bool" where
  "starts_with [] ys = True"
| "starts_with (x # xs) [] = False"
| "starts_with (x # xs) (y # ys) = (x = y \<and> starts_with xs ys)"

fun contains_text :: "string \<Rightarrow> string \<Rightarrow> bool" where
  "contains_text [] needle = (needle = [])"
| "contains_text (h # hs) needle = (starts_with needle (h # hs) \<or> contains_text hs needle)"


section \<open>core-p2p: socket-server/index.ts\<close>

subsection \<open>The options handed to SocketCluster\<close>

text \<open>
  \<open>new SocketCluster({ ...{ defaults }, ...config.server })\<close>: an object spread, so a key
  of \<open>config.server\<close> replaces the default of the same name. Objects are maps from the
  property name; \<open>++\<close> is the spread. \<open>process.env.CORE_ENV\<close>,
  \<open>process.env.CORE_NETWORK_NAME\<close> and \<open>__dirname\<close> are inputs.
\<close>

definition relativeSocketPath :: "string option \<Rightarrow> string" where
  "relativeSocketPath core_env =
     (if core_env = Some ''test'' then ''/../../dist/socket-server'' else '''')"

definition defaultOptions ::
  "string option \<Rightarrow> string option \<Rightarrow> string \<Rightarrow> int \<Rightarrow> int \<Rightarrow> (string \<rightharpoonup> json)" where
  "defaultOptions core_env core_network_name dirname getBlocksTimeout verifyTimeout =
     [ ''appName'' \<mapsto> JStr ''core-p2p'',
       ''brokers'' \<mapsto> JNum 1,
       ''environment'' \<mapsto> JStr (if core_network_name = Some ''testnet'' then ''dev'' else ''prod''),
       ''rebootWorkerOnCrash'' \<mapsto> JBool True,
       ''workerController'' \<mapsto> JStr (dirname @ relativeSocketPath core_env @ ''/worker.js''),
       ''workers'' \<mapsto> JNum 2,
       ''wsEngine'' \<mapsto> JStr ''ws'',
       ''pingTimeout'' \<mapsto> JNum (max getBlocksTimeout verifyTimeout),
       ''perMessageDeflate'' \<mapsto> JBool True,
       ''maxPayload'' \<mapsto> JNum (2 * 1024 * 1024) ]"

definition serverOptions ::
  "string option \<Rightarrow> string option \<Rightarrow> string \<Rightarrow> int \<Rightarrow> int \<Rightarrow> (string \<rightharpoonup> json)
     \<Rightarrow> (string \<rightharpoonup> json)" where
  "serverOptions core_env core_network_name dirname getBlocksTimeout verifyTimeout config_server =
     defaultOptions core_env core_network_name dirname getBlocksTimeout verifyTimeout
       ++ config_server"


subsection \<open>The workerMessage handler\<close>

record request =
  endpoint :: string
  data :: json

text \<open>
  What \<open>res\<close> is called with: \<open>res(undefined, {data, headers})\<close> or \<open>res(error)\<close>.
\<close>

datatype peer_response = Success json json | Failure js_error

text \<open>
  Property lookup \<open>obj[key]\<close>: the object's own property if it has one, otherwise what
  the object inherits through its prototype chain; \<open>None\<close> is \<open>undefined\<close>.
\<close>

datatype ('own, 'obj) property = Own 'own | Inherited 'obj

definition js_get ::
  "(string \<rightharpoonup> 'own) \<Rightarrow> (string \<rightharpoonup> 'obj) \<Rightarrow> string \<Rightarrow> ('own, 'obj) property option" where
  "js_get own proto key =
     (case own key of
        Some v \<Rightarrow> Some (Own v)
      | None \<Rightarrow> (case proto key of Some b \<Rightarrow> Some (Inherited b) | None \<Rightarrow> None))"

text \<open>
  The collaborators that index.ts imports and that are not part of it are parameters.
  \<open>schemas\<close> holds the schemas registered in \<open>../schemas\<close>, by version and method, and
  \<open>versions\<close> the handlers registered in \<open>./versions\<close>; these are the own properties of
  the objects \<open>requestSchemas\<close> and \<open>handlers\<close> and of their per-version objects. All of
  these are plain objects, so each also inherits the properties of \<open>Object.prototype\<close>:
  \<open>objectPrototype\<close> gives those by name, as built-in values of type \<open>'obj\<close>;
  \<open>getProperty\<close> reads a property of a built-in value, \<open>truthy\<close> is its truthiness, and
  \<open>callBuiltin\<close> is what calling it as \<open>handlers[version][method]({ app, service, req })\<close>
  does (\<open>None\<close> where it is not a function). \<open>validate\<close> (\<open>./utils/validate\<close>) returns or
  throws, for whatever value it is given as the schema. \<open>getHeaders\<close> and the text of the
  two TypeErrors the engine raises, when \<open>handlers[version]\<close> is undefined and when
  \<open>handlers[version][method]\<close> is not a function, are parameters too. A handler reads
  and may change the application state \<open>'st\<close>, and returns its value or throws.
\<close>

type_synonym 'st handler = "'st \<Rightarrow> request \<Rightarrow> (js_error + json) \<times> 'st"

record ('sch, 'obj, 'st) p2p_env =
  schemas :: "string \<rightharpoonup> (string \<rightharpoonup> 'sch)"
  versions :: "string \<rightharpoonup> (string \<rightharpoonup> 'st handler)"
  objectPrototype :: "string \<rightharpoonup> 'obj"
  getProperty :: "'obj \<Rightarrow> string \<rightharpoonup> 'obj"
  truthy :: "'obj \<Rightarrow> bool"
  callBuiltin :: "'obj \<Rightarrow> 'st handler option"
  validate :: "('sch, 'obj) property \<Rightarrow> json \<Rightarrow> js_error option"
  getHeaders :: "'st \<Rightarrow> json"
  undefinedPropertyError :: "string \<Rightarrow> string"
  notAFunctionError :: string

text \<open>
  The outcome of one dispatch: the response given to the peer, what \<open>app.log.error\<close>
  received, the handler invocations made (the request each was called with), and the
  application state afterwards.
\<close>

record 'st dispatch_result =
  response :: peer_response
  logged :: "string list"
  invocations :: "request list"
  app_state :: 'st

text \<open>\<open>const [, version, method] = req.endpoint.split(".")\<close>\<close>

definition endpoint_version :: "request \<Rightarrow> string option" where
  "endpoint_version req = element_at (js_split CHR ''.'' (endpoint req)) 1"

definition endpoint_method :: "request \<Rightarrow> string option" where
  "endpoint_method req = element_at (js_split CHR ''.'' (endpoint req)) 2"

text \<open>\<open>requestSchemas[version]\<close>: the registered version object, or an inherited value.\<close>

definition requestSchemas ::
  "('sch, 'obj, 'st) p2p_env \<Rightarrow> string \<Rightarrow> (string \<rightharpoonup> 'sch, 'obj) property option" where
  "requestSchemas env version = js_get (schemas env) (objectPrototype env) version"

text \<open>
  \<open>requestSchemas[version][method]\<close>, given what \<open>requestSchemas[version]\<close> is: on a
  registered version object the registered schema or an inherited value, on an
  inherited value a property of that value.
\<close>

definition method_property ::
  "('sch, 'obj, 'st) p2p_env \<Rightarrow> (string \<rightharpoonup> 'sch, 'obj) property \<Rightarrow> string
     \<Rightarrow> ('sch, 'obj) property option" where
  "method_property env byVersion method =
     (case byVersion of
        Own byMethod \<Rightarrow> js_get byMethod (objectPrototype env) method
      | Inherited b \<Rightarrow>
          (case getProperty env b method of Some b' \<Rightarrow> Some (Inherited b') | None \<Rightarrow> None))"

text \<open>The test of an \<open>if\<close>: a registered object is truthy.\<close>

definition is_truthy :: "('sch, 'obj, 'st) p2p_env \<Rightarrow> ('own, 'obj) property \<Rightarrow> bool" where
  "is_truthy env p = (case p of Own v \<Rightarrow> True | Inherited b \<Rightarrow> truthy env b)"

text \<open>Lines 58 to 64: \<open>None\<close> when nothing is thrown.\<close>

definition validation_step :: "('sch, 'obj, 'st) p2p_env \<Rightarrow> request \<Rightarrow> js_error option" where
  "validation_step env req =
     (case requestSchemas env (property_key (endpoint_version req)) of
        None \<Rightarrow> None
      | Some byVersion \<Rightarrow>
          (if is_truthy env byVersion
           then (case method_property env byVersion (property_key (endpoint_method req)) of
                   None \<Rightarrow> None
                 | Some requestSchema \<Rightarrow>
                     (if is_truthy env requestSchema
                      then validate env requestSchema (data req)
                      else None))
           else None))"

text \<open>
  \<open>handlers[version]\<close>, read as the functions that \<open>handlers[version][method]\<close> can be
  called as: \<open>None\<close> where \<open>handlers[version]\<close> is undefined, and at a method \<open>None\<close>
  where the property is undefined or not a function, which both make the call throw
  the same TypeError. The lookups go through the prototype chain as above.
\<close>

definition handlers ::
  "('sch, 'obj, 'st) p2p_env \<Rightarrow> string \<rightharpoonup> (string \<rightharpoonup> 'st handler)" where
  "handlers env version =
     (case js_get (versions env) (objectPrototype env) version of
        None \<Rightarrow> None
      | Some (Own byMethod) \<Rightarrow>
          Some (\<lambda>method.
                  case js_get byMethod (objectPrototype env) method of
                    None \<Rightarrow> None
                  | Some (Own h) \<Rightarrow> Some h
                  | Some (Inherited b) \<Rightarrow> callBuiltin env b)
      | Some (Inherited b) \<Rightarrow>
          Some (\<lambda>method.
                  case getProperty env b method of
                    None \<Rightarrow> None
                  | Some b' \<Rightarrow> callBuiltin env b'))"

text \<open>\<open>await handlers[version][method]({ app, service, req })\<close>\<close>

definition handler_step ::
  "('sch, 'obj, 'st) p2p_env \<Rightarrow> 'st \<Rightarrow> request \<Rightarrow> (js_error + json) \<times> request list \<times> 'st" where
  "handler_step env st req =
     (case handlers env (property_key (endpoint_version req)) of
        None \<Rightarrow>
          (Inl (OtherError (undefinedPropertyError env (property_key (endpoint_method req)))),
           [], st)
      | Some byMethod \<Rightarrow>
          (case byMethod (property_key (endpoint_method req)) of
             None \<Rightarrow> (Inl (OtherError (notAFunctionError env)), [], st)
           | Some h \<Rightarrow> (case h st req of (r, st') \<Rightarrow> (r, [req], st'))))"

text \<open>The \<open>try\<close> block, lines 57 to 69.\<close>

definition try_block ::
  "('sch, 'obj, 'st) p2p_env \<Rightarrow> 'st \<Rightarrow> request \<Rightarrow> (js_error + peer_response) \<times> request list \<times> 'st" where
  "try_block env st req =
     (case validation_step env req of
        Some e \<Rightarrow> (Inl e, [], st)
      | None \<Rightarrow>
          (case handler_step env st req of
             (Inl e, calls, st') \<Rightarrow> (Inl e, calls, st')
           | (Inr d, calls, st') \<Rightarrow>
               (Inr (Success (if falsy d then JObj [] else d) (getHeaders env st')), calls, st')))"

text \<open>The \<open>catch\<close> block, lines 70 to 77: the response and the log line for an error.\<close>

definition catch_block :: "request \<Rightarrow> js_error \<Rightarrow> peer_response \<times> string list" where
  "catch_block req error =
     (case error of
        ServerError m \<Rightarrow> (Failure error, [])
      | OtherError m \<Rightarrow>
          (Failure (OtherError (endpoint req @ '' responded with '' @ m)), [m]))"

definition workerMessage ::
  "('sch, 'obj, 'st) p2p_env \<Rightarrow> 'st \<Rightarrow> request \<Rightarrow> 'st dispatch_result" where
  "workerMessage env st req =
     (case try_block env st req of
        (Inr resp, calls, st') \<Rightarrow>
          \<lparr> response = resp, logged = [], invocations = calls, app_state = st' \<rparr>
      | (Inl error, calls, st') \<Rightarrow>
          (case catch_block req error of
             (resp, lines) \<Rightarrow>
               \<lparr> response = resp, logged = lines, invocations = calls, app_state = st' \<rparr>))"


text \<open>
  The same two outcomes of \<open>workerMessage\<close> read off what the handler step returned:
  lines 66 to 69 for a value, lines 70 to 77 for an error.
\<close>

definition after_handler ::
  "('sch, 'obj, 'st) p2p_env \<Rightarrow> request \<Rightarrow> (js_error + json) \<times> request list \<times> 'st
     \<Rightarrow> 'st dispatch_result" where
  "after_handler env req out =
     (case out of (r, calls, st') \<Rightarrow>
        (case r of
           Inl e \<Rightarrow> \<lparr> response = fst (catch_block req e), logged = snd (catch_block req e),
                      invocations = calls, app_state = st' \<rparr>
         | Inr d \<Rightarrow> \<lparr> response = Success (if falsy d then JObj [] else d) (getHeaders env st'),
                      logged = [], invocations = calls, app_state = st' \<rparr>))"


subsection \<open>Waiting for the transport, lines 80 to 91\<close>

text \<open>
  The timer and the promise of \<open>startSocketServer\<close> as a state machine over a clock in
  milliseconds. \<open>setTimeout\<close> arms a timer whose callback runs on the event loop,
  outside the \<open>async\<close> function: an error thrown there is an uncaught exception of the
  process, and the promise returned to the caller is settled only where the function
  itself returns or throws. The function's only suspension point is the \<open>await\<close> on the
  transport's \<open>ready\<close> event.
\<close>

datatype promise_state = PromisePending | PromiseResolved | PromiseRejected js_error

record startup =
  now :: nat
  timeout :: "nat option"
  started :: promise_state
  uncaught :: "string list"
  injected :: bool

datatype startup_event = Elapse nat | TransportReady

text \<open>The state when the function suspends at the \<open>await\<close>.\<close>

definition startSocketServer :: startup where
  "startSocketServer =
     \<lparr> now = 0, timeout = Some 10000, started = PromisePending, uncaught = [], injected = False \<rparr>"

fun startup_step :: "startup_event \<Rightarrow> startup \<Rightarrow> startup" where
  "startup_step (Elapse n) s =
     (case timeout s of
        None \<Rightarrow> s\<lparr>now := now s + n\<rparr>
      | Some deadline \<Rightarrow>
          (if deadline \<le> now s + n
           then s\<lparr>now := now s + n, timeout := None,
                  uncaught := uncaught s @ [''Socket server failed to setup in 10 seconds.'']\<rparr>
           else s\<lparr>now := now s + n\<rparr>))"
| "startup_step TransportReady s =
     (if started s = PromisePending
      then s\<lparr>timeout := None, injected := True, started := PromiseResolved\<rparr>
      else s)"

definition startup_run :: "startup_event list \<Rightarrow> startup \<Rightarrow> startup" where
  "startup_run evs s = fold startup_step evs s"


section \<open>core-api: controllers/transactions.ts\<close>

subsection \<open>Transaction pool, modelled from the specification\<close>

text \<open>
  The transaction store, the admission processor and the pool query are not among the
  source files. The definitions of this subsection follow sections 3, 4.1, 4.2 and 4.3
  of the specification.
\<close>

text \<open>Modelled from the spec: \<open>PendingTransaction\<close> (section 3); the store is missing.\<close>

record pending_transaction =
  p_id :: string
  senderPublicKey :: string
  nonce :: nat
  fee :: nat
  priority :: nat
  payload :: string
  arrival :: nat

text \<open>
  Modelled from the spec: the \<open>Pool\<close> with its fixed maximum size \<open>C\<close> (section 3), and the
  counter that stamps arrival sequence numbers; the store is missing.
\<close>

record pool_store =
  entries :: "pending_transaction list"
  capacity :: nat
  arrivals :: nat

text \<open>Modelled from the spec: the reason of \<open>Rejected\<close> (section 4.1); the store is missing.\<close>

datatype reject_reason = Capacity

text \<open>Modelled from the spec: the result of \<open>Store.add\<close> (section 4.1), which is missing.\<close>

datatype add_result = Admitted | AdmittedWithEviction string | Rejected reject_reason

text \<open>Modelled from the spec: the store before any admission; the store is missing.\<close>

definition empty_store :: "nat \<Rightarrow> pool_store" where
  "empty_store C = \<lparr> entries = [], capacity = C, arrivals = 0 \<rparr>"

text \<open>
  Modelled from the spec: the query order of the missing store, priority descending and
  ties by ascending arrival (section 3).
\<close>

definition ranks_before :: "pending_transaction \<Rightarrow> pending_transaction \<Rightarrow> bool" where
  "ranks_before a b =
     (priority b < priority a \<or> (priority a = priority b \<and> arrival a < arrival b))"

text \<open>
  Modelled from the spec: the current minimum-priority entry of the missing store, the
  one that comes last in query order (section 4.1).
\<close>

fun minimum_entry :: "pending_transaction list \<Rightarrow> pending_transaction option" where
  "minimum_entry [] = None"
| "minimum_entry (x # xs) =
     (case minimum_entry xs of
        None \<Rightarrow> Some x
      | Some m \<Rightarrow> (if ranks_before m x then Some x else Some m))"

text \<open>Modelled from the spec: \<open>has(id) -> bool\<close> of the missing store (section 4.1).\<close>

definition has_id :: "string \<Rightarrow> pool_store \<Rightarrow> bool" where
  "has_id i s = (i \<in> set (map p_id (entries s)))"

text \<open>Modelled from the spec: \<open>remove(id) -> bool\<close> of the missing store (section 4.1).\<close>

definition remove :: "string \<Rightarrow> pool_store \<Rightarrow> bool \<times> pool_store" where
  "remove i s = (has_id i s, s\<lparr>entries := filter (\<lambda>e. p_id e \<noteq> i) (entries s)\<rparr>)"

text \<open>
  Modelled from the spec: the membership change of an admission into the missing store,
  with the arrival sequence number stamped (sections 3 and 4.1).
\<close>

definition admit :: "pending_transaction \<Rightarrow> pool_store \<Rightarrow> pool_store" where
  "admit tx s =
     s\<lparr>entries := entries s @ [tx\<lparr>arrival := arrivals s\<rparr>], arrivals := Suc (arrivals s)\<rparr>"

text \<open>
  Modelled from the spec: \<open>Store.add(tx)\<close>, which is missing (section 4.1). Below capacity
  the transaction is admitted; at capacity it is compared with the minimum-priority
  entry, which is evicted if the new priority is strictly higher; otherwise the
  transaction is rejected for capacity.
\<close>

definition add :: "pending_transaction \<Rightarrow> pool_store \<Rightarrow> add_result \<times> pool_store" where
  "add tx s =
     (if length (entries s) < capacity s then (Admitted, admit tx s)
      else (case minimum_entry (entries s) of
              None \<Rightarrow> (Rejected Capacity, s)
            | Some m \<Rightarrow>
                (if length (entries s) = capacity s \<and> priority m < priority tx
                 then (AdmittedWithEviction (p_id m), admit tx (snd (remove (p_id m) s)))
                 else (Rejected Capacity, s))))"

text \<open>
  Modelled from the spec: the operations that change the missing store, admission (with
  its evictions) and removal (sections 3 and 4.1).
\<close>

datatype store_op = Add pending_transaction | Remove string

text \<open>Modelled from the spec: one operation applied to the missing store.\<close>

fun apply_op :: "store_op \<Rightarrow> pool_store \<Rightarrow> pool_store" where
  "apply_op (Add tx) s = snd (add tx s)"
| "apply_op (Remove i) s = snd (remove i s)"

text \<open>Modelled from the spec: the invariant \<open>|Pool| <= C\<close> of the missing store (section 3).\<close>

definition within_capacity :: "pool_store \<Rightarrow> bool" where
  "within_capacity s = (length (entries s) \<le> capacity s)"

text \<open>
  Modelled from the spec: a candidate of a batch given to the missing processor, a raw
  payload submitted under an id (section 4.3).
\<close>

record candidate =
  c_id :: string
  raw :: string

text \<open>
  Modelled from the spec: what \<open>deserialize\<close> reads from a raw payload, for the missing
  processor (sections 3 and 4.3).
\<close>

record tx_fields =
  f_senderPublicKey :: string
  f_nonce :: nat
  f_fee :: nat
  f_size :: nat
  f_typeGroup :: nat
  f_type :: nat

text \<open>Modelled from the spec: the per-candidate errors of the missing processor (section 7).\<close>

datatype pool_error =
    DeserializationError
  | AlreadyExistsError
  | UnsupportedTypeError
  | HandlerValidationError string

text \<open>Modelled from the spec: the batch-level error of the missing processor (section 7).\<close>

datatype batch_error = BatchMalformedError

text \<open>
  Modelled from the spec: the collaborators of the missing processor: \<open>deserialize\<close>, the
  priority function of fee and size, the test for permanently settled ids, the handler
  registry by (typeGroup, type) whose capability validates against the current state
  and returns a reason on failure, and the maximum batch size (sections 3, 4.3 and 6).
\<close>

record processor_env =
  deserialize :: "string \<Rightarrow> tx_fields option"
  computePriority :: "nat \<Rightarrow> nat \<Rightarrow> nat"
  settled :: "string \<Rightarrow> bool"
  registry :: "nat \<times> nat \<rightharpoonup> (pending_transaction \<Rightarrow> pool_store \<Rightarrow> string option)"
  maxBatch :: nat

text \<open>
  Modelled from the spec: what the missing processor works on, the store and the ids
  already broadcast (section 4.3, step 5).
\<close>

record processor_state =
  txStore :: pool_store
  broadcasted :: "string list"

text \<open>Modelled from the spec: \<open>ProcessorResult\<close> of the missing processor (section 3).\<close>

record processor_result =
  accept :: "string list"
  broadcast :: "string list"
  excess :: "string list"
  invalid :: "string list"
  errors :: "string \<rightharpoonup> pool_error"

text \<open>Modelled from the spec: the result of the missing processor before any candidate.\<close>

definition empty_result :: processor_result where
  "empty_result = \<lparr> accept = [], broadcast = [], excess = [], invalid = [], errors = Map.empty \<rparr>"

text \<open>
  Modelled from the spec: the missing processor classifies a candidate as invalid, with
  its error (section 4.3, steps 1 to 4).
\<close>

definition reject_candidate :: "candidate \<Rightarrow> pool_error \<Rightarrow> processor_result \<Rightarrow> processor_result" where
  "reject_candidate c e r =
     r\<lparr>invalid := invalid r @ [c_id c], errors := (errors r)(c_id c \<mapsto> e)\<rparr>"

text \<open>
  Modelled from the spec: the transaction the missing processor hands to the store, with
  its computed priority (section 3).
\<close>

definition to_pending :: "processor_env \<Rightarrow> candidate \<Rightarrow> tx_fields \<Rightarrow> pending_transaction" where
  "to_pending env c f =
     \<lparr> p_id = c_id c, senderPublicKey = f_senderPublicKey f, nonce = f_nonce f, fee = f_fee f,
       priority = computePriority env (f_fee f) (f_size f), payload = raw c, arrival = 0 \<rparr>"

text \<open>
  Modelled from the spec: steps 1 to 5 of the missing \<open>Processor.process\<close> for one
  candidate (section 4.3).
\<close>

definition process_candidate ::
  "processor_env \<Rightarrow> candidate \<Rightarrow> processor_state \<times> processor_result
     \<Rightarrow> processor_state \<times> processor_result" where
  "process_candidate env c sr =
     (case sr of (st, r) \<Rightarrow>
        (case deserialize env (raw c) of
           None \<Rightarrow> (st, reject_candidate c DeserializationError r)
         | Some f \<Rightarrow>
             (if has_id (c_id c) (txStore st) \<or> settled env (c_id c)
              then (st, reject_candidate c AlreadyExistsError r)
              else (case registry env (f_typeGroup f, f_type f) of
                      None \<Rightarrow> (st, reject_candidate c UnsupportedTypeError r)
                    | Some check \<Rightarrow>
                        (case check (to_pending env c f) (txStore st) of
                           Some reason \<Rightarrow> (st, reject_candidate c (HandlerValidationError reason) r)
                         | None \<Rightarrow>
                             (case add (to_pending env c f) (txStore st) of
                                (Rejected why, s') \<Rightarrow>
                                  (st\<lparr>txStore := s'\<rparr>, r\<lparr>excess := excess r @ [c_id c]\<rparr>)
                              | (admitted, s') \<Rightarrow>
                                  (if c_id c \<in> set (broadcasted st)
                                   then (st\<lparr>txStore := s'\<rparr>, r\<lparr>accept := accept r @ [c_id c]\<rparr>)
                                   else (st\<lparr>txStore := s', broadcasted := broadcasted st @ [c_id c]\<rparr>,
                                         r\<lparr>accept := accept r @ [c_id c],
                                           broadcast := broadcast r @ [c_id c]\<rparr>))))))))"

text \<open>
  Modelled from the spec: the missing \<open>Processor.process\<close> fails as a whole on a batch
  over the maximum size and otherwise handles the candidates in input order
  (section 4.3).
\<close>

definition process ::
  "processor_env \<Rightarrow> candidate list \<Rightarrow> processor_state
     \<Rightarrow> batch_error + processor_state \<times> processor_result" where
  "process env candidates st =
     (if maxBatch env < length candidates then Inl BatchMalformedError
      else Inr (fold (process_candidate env) candidates (st, empty_result)))"

text \<open>
  Modelled from the spec: the postcondition of the missing processor without the
  disjointness (section 4.3): the three sets cover the ids \<open>P\<close>, broadcast ids are
  accepted ids, and errors are recorded for invalid ids only.
\<close>

definition classified :: "string set \<Rightarrow> processor_result \<Rightarrow> bool" where
  "classified P r =
     (set (accept r) \<union> set (excess r) \<union> set (invalid r) = P
      \<and> set (broadcast r) \<subseteq> set (accept r)
      \<and> dom (errors r) \<subseteq> set (invalid r))"

text \<open>
  Modelled from the spec: the disjointness of the postcondition of the missing processor
  (section 4.3).
\<close>

definition separated :: "processor_result \<Rightarrow> bool" where
  "separated r =
     (set (accept r) \<inter> set (excess r) = {}
      \<and> set (accept r) \<inter> set (invalid r) = {}
      \<and> set (excess r) \<inter> set (invalid r) = {})"

text \<open>
  Modelled from the spec: a transaction as the missing pool query yields it, with the
  two fields the controller reads, \<open>id\<close> and \<open>data\<close>.
\<close>

record 'd transaction =
  tx_id :: string
  tx_data :: 'd

text \<open>
  Modelled from the spec: \<open>whereId\<close> of the missing pool query is \<open>withFilter\<close> on the id
  (section 4.2).
\<close>

definition whereId :: "'d transaction list \<Rightarrow> string \<Rightarrow> 'd transaction list" where
  "whereId q i = filter (\<lambda>t. tx_id t = i) q"

text \<open>Modelled from the spec: \<open>has()\<close> of the missing pool query (section 4.2).\<close>

definition has :: "'a list \<Rightarrow> bool" where
  "has q = (q \<noteq> [])"

text \<open>Modelled from the spec: the failure of \<open>first()\<close> of the missing pool query.\<close>

datatype query_error = NoFirstTransaction

text \<open>
  Modelled from the spec: \<open>first()\<close> of the missing pool query (section 4.2); it has no
  transaction to return on an empty sequence.
\<close>

definition first :: "'a list \<Rightarrow> query_error + 'a" where
  "first q = (case q of [] \<Rightarrow> Inl NoFirstTransaction | t # ts \<Rightarrow> Inr t)"


subsection \<open>The controller\<close>

text \<open>\<open>Array.prototype.slice(start, end)\<close> on integer arguments.\<close>

definition js_slice :: "'a list \<Rightarrow> int \<Rightarrow> int \<Rightarrow> 'a list" where
  "js_slice xs s e =
     (let len = int (length xs);
          k = (if s < 0 then max (len + s) 0 else min s len);
          final = (if e < 0 then max (len + e) 0 else min e len)
      in take (nat (final - k)) (drop (nat k) xs))"

text \<open>
  A page in words rather than by \<open>slice\<close>: the contiguous subsequence of a sequence at
  the positions from \<open>a\<close> up to, not including, \<open>b\<close>, in the sequence's order.
\<close>

definition positions_between :: "'a list \<Rightarrow> int \<Rightarrow> int \<Rightarrow> 'a list" where
  "positions_between xs a b =
     map (\<lambda>i. xs ! nat i) (filter (\<lambda>i. 0 \<le> i \<and> i < int (length xs)) [a..b - 1])"

record hapi_request =
  params_id :: string
  query :: "string \<rightharpoonup> json"
  payload_transactions :: "candidate list"

record list_page =
  offset :: int
  limit :: int

record 'd result_page =
  rows :: "'d list"
  count :: int
  countIsEstimate :: bool

datatype resource = TransactionResource

text \<open>
  The base class \<open>Controller\<close> and the injected pool query are not part of this file:
  \<open>getListPage\<close>, \<open>toPagination\<close>, \<open>respondWithResource\<close> and \<open>getFromHighestPriority\<close>
  are parameters; \<open>'pool\<close> is the state of the pool the query reads.
\<close>

record ('pool, 'd, 'resp) controller_env =
  getListPage :: "hapi_request \<Rightarrow> list_page"
  toPagination :: "'d result_page \<Rightarrow> resource \<Rightarrow> bool \<Rightarrow> 'resp"
  respondWithResource :: "'d \<Rightarrow> resource \<Rightarrow> bool \<Rightarrow> 'resp"
  getFromHighestPriority :: "'pool \<Rightarrow> 'd transaction list"

datatype 'resp reply = Boom_notFound string | Responded 'resp

text \<open>\<open>!!request.query.transform\<close>\<close>

definition transform_flag :: "hapi_request \<Rightarrow> bool" where
  "transform_flag request =
     (\<not> falsy (case query request ''transform'' of None \<Rightarrow> JUndefined | Some v \<Rightarrow> v))"

record store_data =
  d_accept :: "string list"
  d_broadcast :: "string list"
  d_excess :: "string list"
  d_invalid :: "string list"

record store_response =
  r_data :: store_data
  r_errors :: "string \<rightharpoonup> pool_error"

text \<open>
  \<open>store\<close>, lines 37 to 49: a fresh processor handles the batch, and its five fields are
  the response; a batch-level failure of \<open>process\<close> propagates.
\<close>

definition store ::
  "processor_env \<Rightarrow> processor_state \<Rightarrow> hapi_request
     \<Rightarrow> (batch_error + store_response) \<times> processor_state" where
  "store env st request =
     (case process env (payload_transactions request) st of
        Inl e \<Rightarrow> (Inl e, st)
      | Inr (st', processor) \<Rightarrow>
          (Inr \<lparr> r_data = \<lparr> d_accept = accept processor,
                           d_broadcast = broadcast processor,
                           d_excess = excess processor,
                           d_invalid = invalid processor \<rparr>,
                 r_errors = errors processor \<rparr>,
           st'))"

text \<open>\<open>unconfirmed\<close>, lines 60 to 74.\<close>

definition unconfirmed ::
  "('pool, 'd, 'resp) controller_env \<Rightarrow> 'pool \<Rightarrow> hapi_request \<Rightarrow> 'resp \<times> 'pool" where
  "unconfirmed env pool request =
     (let pagination = getListPage env request;
          all = getFromHighestPriority env pool;
          transactions = js_slice all (offset pagination) (offset pagination + limit pagination);
          rows = map tx_data transactions
      in (toPagination env
            \<lparr> rows = rows, count = int (length all), countIsEstimate = False \<rparr>
            TransactionResource (transform_flag request),
          pool))"

text \<open>\<open>showUnconfirmed\<close>, lines 76 to 88.\<close>

definition showUnconfirmed ::
  "('pool, 'd, 'resp) controller_env \<Rightarrow> 'pool \<Rightarrow> hapi_request
     \<Rightarrow> (query_error + 'resp reply) \<times> 'pool" where
  "showUnconfirmed env pool request =
     (let transactionQuery = whereId (getFromHighestPriority env pool) (params_id request)
      in if has transactionQuery = False then (Inr (Boom_notFound ''Transaction not found''), pool)
         else (case first transactionQuery of
                 Inl e \<Rightarrow> (Inl e, pool)
               | Inr transaction \<Rightarrow>
                   (Inr (Responded (respondWithResource env (tx_data transaction)
                                      TransactionResource (transform_flag request))),
                    pool)))"


section \<open>Concrete environments\<close>

text \<open>
  A small peer environment: one schema, for \<open>v1\<close> \<open>postBlock\<close>, which accepts objects
  only; a handler that succeeds and counts its calls in the state, one that throws an
  ordinary error and one that throws a \<open>ServerError\<close>. Of the properties every object
  inherits it lists \<open>toString\<close>, which returns \<open>[object Object]\<close> when called; \<open>validate\<close>
  throws when the schema it is given is a built-in function.
\<close>

definition example_handlers :: "string \<rightharpoonup> nat handler" where
  "example_handlers =
     [''postBlock'' \<mapsto> (\<lambda>st req. (Inr (JObj []), Suc st)),
      ''getStatus'' \<mapsto> (\<lambda>st req. (Inl (OtherError ''connect ECONNREFUSED 10.0.0.5:5432''), st)),
      ''getPeers'' \<mapsto> (\<lambda>st req. (Inl (ServerError ''rate limit exceeded''), st))]"

definition example_schemas :: "string \<rightharpoonup> unit" where
  "example_schemas = [''postBlock'' \<mapsto> ()]"

definition example_prototype :: "string \<rightharpoonup> string" where
  "example_prototype = [''toString'' \<mapsto> ''Object.prototype.toString'']"

definition example_callBuiltin :: "string \<Rightarrow> nat handler option" where
  "example_callBuiltin b =
     (if b = ''Object.prototype.toString''
      then Some (\<lambda>st req. (Inr (JStr ''[object Object]''), st))
      else None)"

definition example_validate :: "(unit, string) property \<Rightarrow> json \<Rightarrow> js_error option" where
  "example_validate sch d =
     (case sch of
        Own u \<Rightarrow>
          (case d of JObj kvs \<Rightarrow> None
           | _ \<Rightarrow> Some (OtherError ''Data validation error : should be object''))
      | Inherited b \<Rightarrow> Some (OtherError ''schema must be object or boolean''))"

definition example_env :: "(unit, string, nat) p2p_env" where
  "example_env =
     \<lparr> schemas = [''v1'' \<mapsto> example_schemas],
       versions = [''v1'' \<mapsto> example_handlers],
       objectPrototype = example_prototype,
       getProperty = (\<lambda>b k. None),
       truthy = (\<lambda>b. True),
       callBuiltin = example_callBuiltin,
       validate = example_validate,
       getHeaders = (\<lambda>st. JObj [(''height'', JNum (int st))]),
       undefinedPropertyError = (\<lambda>k. ''Cannot read property '' @ k @ '' of undefined''),
       notAFunctionError = ''handlers[version][method] is not a function'' \<rparr>"

text \<open>What \<open>handlers.v1[method]\<close> can be called as in this environment.\<close>

definition example_callable :: "string \<rightharpoonup> nat handler" where
  "example_callable method =
     (case js_get example_handlers example_prototype method of
        None \<Rightarrow> None
      | Some (Own h) \<Rightarrow> Some h
      | Some (Inherited b) \<Rightarrow> example_callBuiltin b)"

definition toString_request :: "string \<Rightarrow> request" where
  "toString_request version = \<lparr> endpoint = ''p2p.'' @ version @ ''.toString'', data = JNull \<rparr>"

definition getStatus_request :: request where
  "getStatus_request = \<lparr> endpoint = ''p2p.v1.getStatus'', data = JNull \<rparr>"

definition getPeers_request :: request where
  "getPeers_request = \<lparr> endpoint = ''p2p.v1.getPeers'', data = JNull \<rparr>"

text \<open>The message of a failure response, as the peer reads it.\<close>

definition peer_visible_message :: "peer_response \<Rightarrow> string option" where
  "peer_visible_message r = (case r of Success d h \<Rightarrow> None | Failure e \<Rightarrow> Some (message e))"

definition internal_getStatus_request :: request where
  "internal_getStatus_request = \<lparr> endpoint = ''internal.v1.getStatus'', data = JNull \<rparr>"

text \<open>
  A small REST environment: the pool is its own snapshot, a transaction's data is a
  number, the page is read from the query with the defaults 0 and 100, and the two
  response builders produce JSON.
\<close>

definition example_getListPage :: "hapi_request \<Rightarrow> list_page" where
  "example_getListPage request =
     \<lparr> offset = (case query request ''offset'' of Some (JNum n) \<Rightarrow> n | _ \<Rightarrow> 0),
       limit = (case query request ''limit'' of Some (JNum n) \<Rightarrow> n | _ \<Rightarrow> 100) \<rparr>"

definition example_controller :: "(int transaction list, int, json) controller_env" where
  "example_controller =
     \<lparr> getListPage = example_getListPage,
       toPagination = (\<lambda>page res transform.
          JObj [(''results'', JArr (map JNum (rows page))), (''totalCount'', JNum (count page))]),
       respondWithResource = (\<lambda>d res transform. JObj [(''data'', JNum d)]),
       getFromHighestPriority = (\<lambda>pool. pool) \<rparr>"

definition example_pool :: "int transaction list" where
  "example_pool =
     [\<lparr> tx_id = ''a'', tx_data = 10 \<rparr>, \<lparr> tx_id = ''b'', tx_data = 20 \<rparr>,
      \<lparr> tx_id = ''c'', tx_data = 30 \<rparr>, \<lparr> tx_id = ''d'', tx_data = 40 \<rparr>]"

definition example_request :: "string \<Rightarrow> hapi_request" where
  "example_request i =
     \<lparr> params_id = i, query = [''offset'' \<mapsto> JNum 1, ''limit'' \<mapsto> JNum 2],
       payload_transactions = [] \<rparr>"

text \<open>A request for the page with the given offset and limit.\<close>

definition page_request :: "int \<Rightarrow> int \<Rightarrow> hapi_request" where
  "page_request off lim =
     \<lparr> params_id = [], query = [''offset'' \<mapsto> JNum off, ''limit'' \<mapsto> JNum lim],
       payload_transactions = [] \<rparr>"

text \<open>
  A small processor environment: a payload deserializes unless it is \<open>garbage\<close>, every
  transaction is of type (1, 0), whose capability accepts everything, the priority is
  the fee, and no id is settled.
\<close>

definition example_processor_env :: processor_env where
  "example_processor_env =
     \<lparr> deserialize = (\<lambda>raw. if raw = ''garbage'' then None
                            else Some \<lparr> f_senderPublicKey = ''pk'', f_nonce = 1, f_fee = 10,
                                        f_size = 1, f_typeGroup = 1, f_type = 0 \<rparr>),
       computePriority = (\<lambda>fee size. fee),
       settled = (\<lambda>i. False),
       registry = [(1, 0) \<mapsto> (\<lambda>tx s. None)],
       maxBatch = 40 \<rparr>"

definition fresh_state :: "nat \<Rightarrow> processor_state" where
  "fresh_state C = \<lparr> txStore = empty_store C, broadcasted = [] \<rparr>"

definition candidate_A :: candidate where
  "candidate_A = \<lparr> c_id = ''A'', raw = ''transfer A'' \<rparr>"

definition candidate_B :: candidate where
  "candidate_B = \<lparr> c_id = ''B'', raw = ''garbage'' \<rparr>"

definition batch_request :: "candidate list \<Rightarrow> hapi_request" where
  "batch_request cs = \<lparr> params_id = [], query = Map.empty, payload_transactions = cs \<rparr>"

definition pending_A :: pending_transaction where
  "pending_A = \<lparr> p_id = ''A'', senderPublicKey = ''pk'', nonce = 1, fee = 10, priority = 10,
                 payload = ''transfer A'', arrival = 0 \<rparr>"

text \<open>The processor state once \<open>A\<close> has been admitted to an empty pool of capacity 10.\<close>

definition state_with_A :: processor_state where
  "state_with_A =
     \<lparr> txStore = \<lparr> entries = [pending_A], capacity = 10, arrivals = 1 \<rparr>, broadcasted = [''A''] \<rparr>"

text \<open>A pending transaction with an id, a priority and an arrival number.\<close>

definition tx_with :: "string \<Rightarrow> nat \<Rightarrow> nat \<Rightarrow> pending_transaction" where
  "tx_with i p a = \<lparr> p_id = i, senderPublicKey = ''pk'', nonce = 0, fee = p, priority = p,
                     payload = [], arrival = a \<rparr>"

text \<open>A pool of capacity 2 that is full, both entries of priority 100.\<close>

definition full_store :: pool_store where
  "full_store = \<lparr> entries = [tx_with ''a'' 100 0, tx_with ''b'' 100 1], capacity = 2, arrivals = 2 \<rparr>"

text \<open>The result of the batch that submits \<open>A\<close> twice.\<close>

definition duplicate_batch_result :: processor_result where
  "duplicate_batch_result =
     \<lparr> accept = [''A''], broadcast = [''A''], excess = [], invalid = [''A''],
       errors = [''A'' \<mapsto> AlreadyExistsError] \<rparr>"


section \<open>Properties of the socket server\<close>

lemmas dispatch_defs =
  workerMessage_def try_block_def validation_step_def handler_step_def catch_block_def
  requestSchemas_def method_property_def is_truthy_def handlers_def js_get_def

lemmas endpoint_defs =
  endpoint_version_def endpoint_method_def element_at_def property_key_def

lemmas example_defs =
  example_env_def example_handlers_def example_schemas_def example_validate_def
  example_prototype_def example_callBuiltin_def example_callable_def toString_request_def
  getStatus_request_def getPeers_request_def internal_getStatus_request_def

subsection \<open>Server options\<close>

text \<open>
  C6, as the code has it: the ping timeout handed to SocketCluster is
  \<open>max(getBlocksTimeout, verifyTimeout)\<close> whenever \<open>config.server\<close> has no
  \<open>pingTimeout\<close> of its own; a \<open>pingTimeout\<close> in \<open>config.server\<close> replaces it.
\<close>

theorem pingTimeout_is_max_unless_overridden:
  "(config_server ''pingTimeout'' = None \<longrightarrow>
      serverOptions core_env network dirname getBlocksTimeout verifyTimeout config_server
          ''pingTimeout''
        = Some (JNum (max getBlocksTimeout verifyTimeout)))
   \<and> (\<forall>v. config_server ''pingTimeout'' = Some v \<longrightarrow>
      serverOptions core_env network dirname getBlocksTimeout verifyTimeout config_server
          ''pingTimeout''
        = Some v)"
  by (simp add: serverOptions_def defaultOptions_def map_add_def)

text \<open>Scenario D of the specification, and an override.\<close>

theorem pingTimeout_is_max_unless_overridden_witness:
  "(Map.empty ''pingTimeout'' = (None :: json option)
      \<and> serverOptions None None ''/core-p2p'' 2000 5000 Map.empty ''pingTimeout''
          = Some (JNum 5000))
   \<and> ([''pingTimeout'' \<mapsto> JNum 1] ''pingTimeout'' = Some (JNum 1)
      \<and> serverOptions None None ''/core-p2p'' 2000 5000 [''pingTimeout'' \<mapsto> JNum 1]
            ''pingTimeout''
          = Some (JNum 1))"
  using pingTimeout_is_max_unless_overridden
          [of Map.empty None None "''/core-p2p''" 2000 5000]
        pingTimeout_is_max_unless_overridden
          [of "[''pingTimeout'' \<mapsto> JNum 1]" None None "''/core-p2p''" 2000 5000]
  by simp

text \<open>
  C6 as stated fails: with \<open>getBlocksTimeout = 2000\<close>, \<open>verifyTimeout = 5000\<close> and
  \<open>config.server = { pingTimeout: 1 }\<close> the configured ping timeout is 1, not 5000.
\<close>

theorem pingTimeout_override_counterexample:
  "serverOptions None None ''/core-p2p'' 2000 5000 [''pingTimeout'' \<mapsto> JNum 1] ''pingTimeout''
     \<noteq> Some (JNum (max 2000 5000))"
  by (simp add: serverOptions_def defaultOptions_def)

text \<open>
  C7, as the code has it: the maximum payload handed to SocketCluster is
  \<open>2 * 1024 * 1024 = 2097152\<close> bytes whenever \<open>config.server\<close> has no \<open>maxPayload\<close> of
  its own; a \<open>maxPayload\<close> in \<open>config.server\<close> replaces it.
\<close>

theorem maxPayload_is_2MiB_unless_overridden:
  "(config_server ''maxPayload'' = None \<longrightarrow>
      serverOptions core_env network dirname getBlocksTimeout verifyTimeout config_server
          ''maxPayload''
        = Some (JNum 2097152))
   \<and> (\<forall>v. config_server ''maxPayload'' = Some v \<longrightarrow>
      serverOptions core_env network dirname getBlocksTimeout verifyTimeout config_server
          ''maxPayload''
        = Some v)"
  by (simp add: serverOptions_def defaultOptions_def map_add_def)

theorem maxPayload_is_2MiB_unless_overridden_witness:
  "(Map.empty ''maxPayload'' = (None :: json option)
      \<and> serverOptions None None ''/core-p2p'' 2000 5000 Map.empty ''maxPayload''
          = Some (JNum (2 * 1024 * 1024)))
   \<and> ([''maxPayload'' \<mapsto> JNum 104857600] ''maxPayload'' = Some (JNum 104857600)
      \<and> serverOptions None None ''/core-p2p'' 2000 5000 [''maxPayload'' \<mapsto> JNum 104857600]
            ''maxPayload''
          = Some (JNum 104857600))"
  using maxPayload_is_2MiB_unless_overridden
          [of Map.empty None None "''/core-p2p''" 2000 5000]
        maxPayload_is_2MiB_unless_overridden
          [of "[''maxPayload'' \<mapsto> JNum 104857600]" None None "''/core-p2p''" 2000 5000]
  by simp

text \<open>
  C7 as stated fails: with \<open>config.server = { maxPayload: 104857600 }\<close> the configured
  maximum is 100 MiB, not 2 MiB.
\<close>

theorem maxPayload_override_counterexample:
  "serverOptions None None ''/core-p2p'' 2000 5000 [''maxPayload'' \<mapsto> JNum 104857600]
       ''maxPayload''
     \<noteq> Some (JNum (2 * 1024 * 1024))"
  by (simp add: serverOptions_def defaultOptions_def)

subsection \<open>Errors of a handler\<close>

text \<open>
  C4, as the code has it: when the handler selected for a request throws, a
  \<open>ServerError\<close> is the response as it is and nothing is logged; for any other error its
  message is logged and the response is an error whose message is the endpoint string,
  the words \<open>responded with\<close> and the message of the original error.
\<close>

theorem handler_error_response:
  assumes "validation_step env req = None"
      and "handlers env (property_key (endpoint_version req)) = Some byMethod"
      and "byMethod (property_key (endpoint_method req)) = Some h"
      and "h st req = (Inl error, st')"
  shows "(\<forall>m. error = ServerError m \<longrightarrow>
            response (workerMessage env st req) = Failure (ServerError m)
          \<and> logged (workerMessage env st req) = [])
       \<and> (\<forall>m. error = OtherError m \<longrightarrow>
            response (workerMessage env st req)
              = Failure (OtherError (endpoint req @ '' responded with '' @ m))
          \<and> logged (workerMessage env st req) = [m])"
  using assms by (simp add: workerMessage_def try_block_def handler_step_def catch_block_def)

theorem handler_error_response_witness:
  "response (workerMessage example_env 0 getStatus_request)
     = Failure (OtherError ''p2p.v1.getStatus responded with connect ECONNREFUSED 10.0.0.5:5432'')
   \<and> logged (workerMessage example_env 0 getStatus_request)
     = [''connect ECONNREFUSED 10.0.0.5:5432'']
   \<and> response (workerMessage example_env 0 getPeers_request)
     = Failure (ServerError ''rate limit exceeded'')
   \<and> logged (workerMessage example_env 0 getPeers_request) = []"
proof -
  have v1: "validation_step example_env getStatus_request = None"
    by (simp add: dispatch_defs example_defs endpoint_defs)
  have h1: "handlers example_env (property_key (endpoint_version getStatus_request))
              = Some example_callable"
    by (simp add: handlers_def js_get_def example_env_def example_callable_def fun_eq_iff
          getStatus_request_def endpoint_defs split: option.splits property.splits)
  have m1: "example_callable (property_key (endpoint_method getStatus_request))
              = Some (\<lambda>st req. (Inl (OtherError ''connect ECONNREFUSED 10.0.0.5:5432''), st))"
    by (simp add: example_callable_def js_get_def example_handlers_def getStatus_request_def
          endpoint_defs)
  have v2: "validation_step example_env getPeers_request = None"
    by (simp add: dispatch_defs example_defs endpoint_defs)
  have h2: "handlers example_env (property_key (endpoint_version getPeers_request))
              = Some example_callable"
    by (simp add: handlers_def js_get_def example_env_def example_callable_def fun_eq_iff
          getPeers_request_def endpoint_defs split: option.splits property.splits)
  have m2: "example_callable (property_key (endpoint_method getPeers_request))
              = Some (\<lambda>st req. (Inl (ServerError ''rate limit exceeded''), st))"
    by (simp add: example_callable_def js_get_def example_handlers_def getPeers_request_def
          endpoint_defs)
  from handler_error_response
         [OF v1 h1 m1, of 0 "OtherError ''connect ECONNREFUSED 10.0.0.5:5432''" 0]
       handler_error_response
         [OF v2 h2 m2, of 0 "ServerError ''rate limit exceeded''" 0]
  show ?thesis by (simp add: getStatus_request_def getPeers_request_def)
qed

text \<open>
  C4 as stated fails: the handler of \<open>p2p.v1.getStatus\<close> throws an ordinary error whose
  message names a database address, and the message the peer receives contains it.
\<close>

theorem handler_error_leaks_message_counterexample:
  "peer_visible_message (response (workerMessage example_env 0 getStatus_request))
     = Some ''p2p.v1.getStatus responded with connect ECONNREFUSED 10.0.0.5:5432''
   \<and> contains_text ''p2p.v1.getStatus responded with connect ECONNREFUSED 10.0.0.5:5432''
        ''connect ECONNREFUSED 10.0.0.5:5432''"
  by (simp add: dispatch_defs example_defs endpoint_defs peer_visible_message_def)


subsection \<open>Validation before dispatch\<close>

lemma workerMessage_rejected:
  "validation_step env req = Some e \<Longrightarrow>
   workerMessage env st req =
     \<lparr> response = fst (catch_block req e), logged = snd (catch_block req e),
       invocations = [], app_state = st \<rparr>"
  by (simp add: workerMessage_def try_block_def split: prod.splits)

lemma workerMessage_dispatched:
  "validation_step env req = None \<Longrightarrow>
   workerMessage env st req = after_handler env req (handler_step env st req)"
  by (simp add: workerMessage_def try_block_def after_handler_def split: prod.splits sum.splits)

lemma endpoint_components:
  "js_split CHR ''.'' (endpoint req) = namespace # version # method # rest \<Longrightarrow>
   property_key (endpoint_version req) = version \<and> property_key (endpoint_method req) = method"
  by (simp add: endpoint_version_def endpoint_method_def element_at_def property_key_def)

lemma validation_step_registered:
  "js_split CHR ''.'' (endpoint req) = namespace # version # method # rest \<Longrightarrow>
   schemas env version = Some byMethod \<Longrightarrow>
   byMethod method = Some requestSchema \<Longrightarrow>
   validation_step env req = validate env (Own requestSchema) (data req)"
  by (simp add: validation_step_def endpoint_components requestSchemas_def method_property_def
        js_get_def is_truthy_def)

lemma validation_step_nothing_found:
  "js_split CHR ''.'' (endpoint req) = namespace # version # method # rest \<Longrightarrow>
   (schemas env version = None \<and> objectPrototype env version = None)
     \<or> (\<exists>byMethod. schemas env version = Some byMethod
            \<and> byMethod method = None \<and> objectPrototype env method = None) \<Longrightarrow>
   validation_step env req = None"
  by (auto simp: validation_step_def endpoint_components requestSchemas_def method_property_def
        js_get_def is_truthy_def)

lemma handlers_validate [simp]: "handlers (env\<lparr>validate := v\<rparr>) = handlers env"
  by (rule ext) (simp add: handlers_def cong: option.case_cong property.case_cong)

lemma handler_step_validate [simp]:
  "handler_step (env\<lparr>validate := v\<rparr>) st req = handler_step env st req"
  by (simp add: handler_step_def split: option.splits)

lemma after_handler_validate [simp]:
  "after_handler (env\<lparr>validate := v\<rparr>) req out = after_handler env req out"
  by (simp add: after_handler_def split: prod.splits sum.splits)

lemma handler_step_registered:
  "js_split CHR ''.'' (endpoint req) = namespace # version # method # rest \<Longrightarrow>
   versions env version = Some byMethod \<Longrightarrow> byMethod method = Some h \<Longrightarrow>
   handler_step env st req = (fst (h st req), [req], snd (h st req))"
  by (simp add: handler_step_def endpoint_components handlers_def js_get_def split: prod.splits)

lemma after_handler_fields [simp]:
  "invocations (after_handler env req (r, calls, st')) = calls"
  "app_state (after_handler env req (r, calls, st')) = st'"
  by (simp_all add: after_handler_def split: sum.splits)

text \<open>
  What holds of the code for a schema that is registered: the payload is validated
  against it first, and if validation throws, no handler is invoked, the application
  state is untouched and the peer receives the validation error (a \<open>ServerError\<close> as it
  is, any other error under the endpoint's name).
\<close>

lemma registered_schema_rejects_before_handler:
  assumes "js_split CHR ''.'' (endpoint req) = namespace # version # method # rest"
      and "schemas env version = Some byMethod"
      and "byMethod method = Some requestSchema"
      and "validate env (Own requestSchema) (data req) = Some e"
  shows "invocations (workerMessage env st req) = []
         \<and> app_state (workerMessage env st req) = st
         \<and> response (workerMessage env st req)
             = Failure (case e of ServerError m \<Rightarrow> e
                        | OtherError m \<Rightarrow> OtherError (endpoint req @ '' responded with '' @ m))"
proof -
  have "validation_step env req = Some e"
    using assms by (simp add: validation_step_registered)
  then show ?thesis
    by (simp add: workerMessage_rejected catch_block_def split: js_error.splits)
qed

text \<open>
  If validation against the registered schema passes, the handler registered for the
  request's version and method is invoked once, with the request.
\<close>

lemma registered_schema_passes_to_handler:
  assumes "js_split CHR ''.'' (endpoint req) = namespace # version # method # rest"
      and "schemas env version = Some byMethod"
      and "byMethod method = Some requestSchema"
      and "validate env (Own requestSchema) (data req) = None"
      and "versions env version = Some handlersByMethod"
      and "handlersByMethod method = Some h"
  shows "invocations (workerMessage env st req) = [req]
         \<and> app_state (workerMessage env st req) = snd (h st req)"
proof -
  have "validation_step env req = None"
    using assms(1-4) by (simp add: validation_step_registered)
  then show ?thesis
    by (simp add: workerMessage_dispatched handler_step_registered [OF assms(1,5,6)])
qed

text \<open>
  What holds of the code where the lookup finds nothing, neither registered nor
  inherited: the outcome does not depend on \<open>validate\<close>, and a handler registered for
  the request's version and method is invoked once, with the request.
\<close>

lemma nothing_found_dispatched_unvalidated:
  assumes "js_split CHR ''.'' (endpoint req) = namespace # version # method # rest"
      and "(schemas env version = None \<and> objectPrototype env version = None)
           \<or> (\<exists>byMethod. schemas env version = Some byMethod
                  \<and> byMethod method = None \<and> objectPrototype env method = None)"
  shows "(\<forall>v. workerMessage env st req = workerMessage (env\<lparr>validate := v\<rparr>) st req)
         \<and> (\<forall>handlersByMethod h.
               versions env version = Some handlersByMethod
             \<longrightarrow> handlersByMethod method = Some h
             \<longrightarrow> invocations (workerMessage env st req) = [req]
                 \<and> app_state (workerMessage env st req) = snd (h st req))"
proof -
  have 1: "validation_step env req = None"
    using assms by (rule validation_step_nothing_found)
  have 2: "validation_step (env\<lparr>validate := v\<rparr>) req = None" for v
    using assms by (intro validation_step_nothing_found [where version = version]) simp_all
  show ?thesis
    using assms(1)
    by (simp add: workerMessage_dispatched [OF 1] workerMessage_dispatched [OF 2]
                  handler_step_registered)
qed

text \<open>
  C5 on the code, for a method name that every object inherits. In the example
  environment \<open>v1\<close> is a registered version and no schema is registered for its method
  \<open>toString\<close>, yet for the request \<open>p2p.v1.toString\<close> the lookup
  \<open>requestSchemas[version][method]\<close> finds the inherited function and \<open>validate\<close> is
  called with it: the outcome of validation is whatever \<open>validate\<close> makes of that
  function. Here \<open>validate\<close> throws, so the peer receives a validation error and nothing
  is invoked; with a \<open>validate\<close> that accepts everything the same request is answered by
  the inherited \<open>toString\<close>, so the outcome depends on \<open>validate\<close>. Under the version
  \<open>v2\<close>, which is not registered, the same method is not validated.
\<close>

theorem inherited_method_is_validated:
  "schemas example_env ''v1'' = Some example_schemas
   \<and> example_schemas ''toString'' = None
   \<and> validation_step example_env (toString_request ''v1'')
       = validate example_env (Inherited ''Object.prototype.toString'')
           (data (toString_request ''v1''))
   \<and> response (workerMessage example_env 0 (toString_request ''v1''))
       = Failure (OtherError ''p2p.v1.toString responded with schema must be object or boolean'')
   \<and> invocations (workerMessage example_env 0 (toString_request ''v1'')) = []
   \<and> response (workerMessage (example_env\<lparr>validate := (\<lambda>sch d. None)\<rparr>) 0
                  (toString_request ''v1''))
       = Success (JStr ''[object Object]'') (JObj [(''height'', JNum 0)])
   \<and> validation_step example_env (toString_request ''v2'') = None
   \<and> response (workerMessage example_env 0 (toString_request ''v2''))
       = Failure (OtherError
           ''p2p.v2.toString responded with Cannot read property toString of undefined'')"
  by (simp add: dispatch_defs endpoint_defs example_defs)

subsection \<open>The namespace component of an endpoint\<close>

lemma js_split_nonempty: "js_split sep s \<noteq> []"
  by (induction s) (auto split: list.splits)

lemma element_at_Suc: "xs \<noteq> [] \<Longrightarrow> element_at xs (Suc i) = element_at (tl xs) i"
  by (cases xs) (auto simp: element_at_def)

text \<open>
  C9, as the code has it. Two requests whose endpoints agree in every component after
  the first and whose payloads agree have the same version and method, the same result
  of schema lookup and validation, and select the same handler. The handler is called
  with the whole request; where it returns the same for both, the two dispatches log
  the same, leave the same state, and give the same response, except that for an error
  other than \<open>ServerError\<close> each failure message starts with the request's own endpoint
  string, namespace included.
\<close>

theorem namespace_only_in_failure_message:
  assumes "tl (js_split CHR ''.'' (endpoint r1)) = tl (js_split CHR ''.'' (endpoint r2))"
      and "data r1 = data r2"
  shows "endpoint_version r1 = endpoint_version r2
       \<and> endpoint_method r1 = endpoint_method r2
       \<and> validation_step env r1 = validation_step env r2
       \<and> ((\<forall>byMethod h.
              handlers env (property_key (endpoint_version r1)) = Some byMethod
            \<longrightarrow> byMethod (property_key (endpoint_method r1)) = Some h
            \<longrightarrow> h st r1 = h st r2)
          \<longrightarrow> logged (workerMessage env st r1) = logged (workerMessage env st r2)
            \<and> app_state (workerMessage env st r1) = app_state (workerMessage env st r2)
            \<and> (response (workerMessage env st r1) = response (workerMessage env st r2)
               \<or> (\<exists>m. response (workerMessage env st r1)
                          = Failure (OtherError (endpoint r1 @ '' responded with '' @ m))
                     \<and> response (workerMessage env st r2)
                          = Failure (OtherError (endpoint r2 @ '' responded with '' @ m)))))"
proof -
  have v: "endpoint_version r1 = endpoint_version r2"
    using assms(1) by (simp add: endpoint_version_def element_at_Suc js_split_nonempty)
  have m: "endpoint_method r1 = endpoint_method r2"
    using assms(1)
    by (simp add: endpoint_method_def numeral_2_eq_2 element_at_Suc js_split_nonempty)
  have val: "validation_step env r1 = validation_step env r2"
    by (simp add: validation_step_def v m assms(2) cong: option.case_cong if_cong)
  have rest: "logged (workerMessage env st r1) = logged (workerMessage env st r2)
            \<and> app_state (workerMessage env st r1) = app_state (workerMessage env st r2)
            \<and> (response (workerMessage env st r1) = response (workerMessage env st r2)
               \<or> (\<exists>m. response (workerMessage env st r1)
                          = Failure (OtherError (endpoint r1 @ '' responded with '' @ m))
                     \<and> response (workerMessage env st r2)
                          = Failure (OtherError (endpoint r2 @ '' responded with '' @ m))))"
    if same: "\<forall>byMethod h.
              handlers env (property_key (endpoint_version r1)) = Some byMethod
            \<longrightarrow> byMethod (property_key (endpoint_method r1)) = Some h
            \<longrightarrow> h st r1 = h st r2"
  proof (cases "validation_step env r1")
    case (Some e)
    then have "validation_step env r2 = Some e" using val by simp
    with Some show ?thesis
      by (cases e) (simp_all add: workerMessage_rejected catch_block_def)
  next
    case None
    then have None2: "validation_step env r2 = None" using val by simp
    have "\<exists>r calls1 calls2 st'. handler_step env st r1 = (r, calls1, st')
            \<and> handler_step env st r2 = (r, calls2, st')"
    proof (cases "handlers env (property_key (endpoint_version r1))")
      case None
      then show ?thesis using v m by (simp add: handler_step_def)
    next
      case (Some byMethod)
      show ?thesis
      proof (cases "byMethod (property_key (endpoint_method r1))")
        case None
        with Some show ?thesis using v m by (simp add: handler_step_def)
      next
        case (Some h)
        with \<open>handlers env (property_key (endpoint_version r1)) = Some byMethod\<close> same
        have "h st r1 = h st r2" by blast
        with Some \<open>handlers env (property_key (endpoint_version r1)) = Some byMethod\<close>
        show ?thesis using v m
          by (simp add: handler_step_def split: prod.splits)
      qed
    qed
    then obtain r calls1 calls2 st' where
      h1: "handler_step env st r1 = (r, calls1, st')" and
      h2: "handler_step env st r2 = (r, calls2, st')" by blast
    show ?thesis
    proof (cases r)
      case (Inl e)
      then show ?thesis
        by (cases e)
           (simp_all add: workerMessage_dispatched [OF None] workerMessage_dispatched [OF None2]
              h1 h2 after_handler_def catch_block_def)
    next
      case (Inr d)
      then show ?thesis
        by (simp add: workerMessage_dispatched [OF None] workerMessage_dispatched [OF None2]
              h1 h2 after_handler_def)
    qed
  qed
  from v m val rest show ?thesis by blast
qed

theorem namespace_only_in_failure_message_witness:
  "tl (js_split CHR ''.'' (endpoint getStatus_request))
     = tl (js_split CHR ''.'' (endpoint internal_getStatus_request))
   \<and> data getStatus_request = data internal_getStatus_request
   \<and> endpoint_version getStatus_request = endpoint_version internal_getStatus_request
   \<and> endpoint_method getStatus_request = endpoint_method internal_getStatus_request
   \<and> logged (workerMessage example_env 0 getStatus_request)
       = logged (workerMessage example_env 0 internal_getStatus_request)"
proof -
  have t: "tl (js_split CHR ''.'' (endpoint getStatus_request))
             = tl (js_split CHR ''.'' (endpoint internal_getStatus_request))"
    by (simp add: getStatus_request_def internal_getStatus_request_def)
  have d: "data getStatus_request = data internal_getStatus_request"
    by (simp add: getStatus_request_def internal_getStatus_request_def)
  have h: "handlers example_env k = Some byMethod \<Longrightarrow> byMethod k' = Some h \<Longrightarrow>
           h (0::nat) getStatus_request = h 0 internal_getStatus_request" for k byMethod k' h
    by (auto simp: handlers_def js_get_def example_env_def example_handlers_def
          example_prototype_def example_callBuiltin_def
        split: if_splits option.splits property.splits)
  from namespace_only_in_failure_message [OF t d, of example_env 0] h
  have "endpoint_version getStatus_request = endpoint_version internal_getStatus_request
      \<and> endpoint_method getStatus_request = endpoint_method internal_getStatus_request
      \<and> logged (workerMessage example_env 0 getStatus_request)
          = logged (workerMessage example_env 0 internal_getStatus_request)"
    by blast
  with t d show ?thesis by simp
qed

text \<open>
  C9 as stated fails: \<open>p2p.v1.getStatus\<close> and \<open>internal.v1.getStatus\<close> differ only in the
  namespace and carry the same payload, the handler throws the same ordinary error for
  both, and the two responses differ.
\<close>

theorem namespace_changes_response_counterexample:
  "tl (js_split CHR ''.'' (endpoint getStatus_request))
     = tl (js_split CHR ''.'' (endpoint internal_getStatus_request))
   \<and> data getStatus_request = data internal_getStatus_request
   \<and> response (workerMessage example_env 0 getStatus_request)
       = Failure (OtherError ''p2p.v1.getStatus responded with connect ECONNREFUSED 10.0.0.5:5432'')
   \<and> response (workerMessage example_env 0 internal_getStatus_request)
       = Failure (OtherError
           ''internal.v1.getStatus responded with connect ECONNREFUSED 10.0.0.5:5432'')
   \<and> response (workerMessage example_env 0 getStatus_request)
       \<noteq> response (workerMessage example_env 0 internal_getStatus_request)"
  by (simp add: dispatch_defs example_defs endpoint_defs)

subsection \<open>The startup timer\<close>

lemma startup_step_not_ready:
  "ev \<noteq> TransportReady \<Longrightarrow> started (startup_step ev s) = started s"
  by (cases ev) (simp_all split: option.splits)

lemma never_ready_never_settles:
  "TransportReady \<notin> set evs \<Longrightarrow> started (startup_run evs s) = started s"
  unfolding startup_run_def
proof (induction evs arbitrary: s)
  case Nil
  then show ?case by simp
next
  case (Cons ev evs)
  then have "ev \<noteq> TransportReady" and "TransportReady \<notin> set evs" by auto
  with Cons.IH [of "startup_step ev s"] show ?case
    by (simp add: startup_step_not_ready)
qed

text \<open>
  C3 on the code, for a transport that never signals readiness. After 10000 ms the
  timer's callback has thrown \<open>Socket server failed to setup in 10 seconds.\<close> on the
  event loop, and the promise of \<open>startSocketServer\<close> is still pending, then and an hour
  later: the caller is given no failure. Before the bound nothing is thrown.
\<close>

theorem startup_timeout_does_not_reject:
  "started (startup_run [Elapse 10000] startSocketServer) = PromisePending
   \<and> uncaught (startup_run [Elapse 10000] startSocketServer)
       = [''Socket server failed to setup in 10 seconds.'']
   \<and> started (startup_run [Elapse 10000, Elapse 3600000] startSocketServer) = PromisePending
   \<and> uncaught (startup_run [Elapse 9999] startSocketServer) = []"
  by (simp add: startup_run_def startSocketServer_def)


section \<open>Properties of the transactions controller\<close>

lemmas controller_example_defs =
  example_controller_def example_getListPage_def example_pool_def example_request_def

subsection \<open>Unconfirmed transactions\<close>

lemma js_slice_nonneg:
  "0 \<le> s \<Longrightarrow> 0 \<le> l \<Longrightarrow> js_slice xs s (s + l) = take (nat l) (drop (nat s) xs)"
proof -
  assume s: "0 \<le> s" and l: "0 \<le> l"
  let ?len = "int (length xs)"
  have "take (nat (min (s + l) ?len - min s ?len)) (drop (nat (min s ?len)) xs)
          = take (nat l) (drop (nat s) xs)"
  proof (cases "s \<le> ?len")
    case True
    then have k: "min s ?len = s" by simp
    have "take (nat (min (s + l) ?len - s)) (drop (nat s) xs) = take (nat l) (drop (nat s) xs)"
    proof (cases "s + l \<le> ?len")
      case True
      then show ?thesis by simp
    next
      case False
      then have "min (s + l) ?len = ?len" by simp
      moreover have "length (drop (nat s) xs) = nat (?len - s)" using s by simp
      moreover have "nat (?len - s) \<le> nat l" using False by simp
      ultimately show ?thesis by simp
    qed
    with k show ?thesis by simp
  next
    case False
    with s l have "length xs \<le> nat s" by simp
    then show ?thesis by simp
  qed
  with s l show ?thesis
    by (simp add: js_slice_def Let_def)
qed

text \<open>
  C8, as the code has it: for a page with offset and limit not below zero,
  \<open>unconfirmed\<close> hands to \<open>toPagination\<close> the data of the snapshot's transactions at
  the positions from the offset up to, not including, offset plus limit, in the
  snapshot's order, with the count the length of the whole snapshot; the pool is as it
  was.
\<close>

theorem unconfirmed_returns_page_and_total:
  assumes "0 \<le> offset (getListPage env request)"
      and "0 \<le> limit (getListPage env request)"
  shows "let all = getFromHighestPriority env pool;
             off = nat (offset (getListPage env request));
             lim = nat (limit (getListPage env request));
             page = take lim (drop off all)
         in unconfirmed env pool request
              = (toPagination env
                   \<lparr> rows = map tx_data page, count = int (length all), countIsEstimate = False \<rparr>
                   TransactionResource (transform_flag request),
                 pool)
          \<and> length page = min lim (length all - off)
          \<and> (\<forall>i < length page. page ! i = all ! (off + i))"
  using assms by (auto simp: unconfirmed_def Let_def js_slice_nonneg min.commute)

theorem unconfirmed_returns_page_and_total_witness:
  "0 \<le> offset (getListPage example_controller (example_request ''b''))
   \<and> 0 \<le> limit (getListPage example_controller (example_request ''b''))
   \<and> unconfirmed example_controller example_pool (example_request ''b'')
       = (JObj [(''results'', JArr [JNum 20, JNum 30]), (''totalCount'', JNum 4)], example_pool)"
proof -
  have o: "0 \<le> offset (getListPage example_controller (example_request ''b''))"
    by (simp add: controller_example_defs)
  have l: "0 \<le> limit (getListPage example_controller (example_request ''b''))"
    by (simp add: controller_example_defs)
  from unconfirmed_returns_page_and_total [OF o l, of example_pool]
  have "unconfirmed example_controller example_pool (example_request ''b'')
       = (JObj [(''results'', JArr [JNum 20, JNum 30]), (''totalCount'', JNum 4)], example_pool)"
    by (simp add: Let_def controller_example_defs)
  with o l show ?thesis by simp
qed

text \<open>
  C8 as stated fails for a page whose limit or offset is below zero, because \<open>slice\<close>
  counts a negative index from the end of the snapshot. With offset 1 and limit -2 the
  positions from 1 up to -1 are none, and \<open>unconfirmed\<close> returns the two transactions
  at positions 1 and 2. With offset -1 and limit 5 the positions from -1 up to 4 are
  all four of the snapshot, and \<open>unconfirmed\<close> returns the last transaction only.
\<close>

theorem unconfirmed_negative_page_counterexample:
  "getListPage example_controller (page_request 1 (- 2)) = \<lparr> offset = 1, limit = - 2 \<rparr>
   \<and> positions_between example_pool 1 (1 + - 2) = []
   \<and> unconfirmed example_controller example_pool (page_request 1 (- 2))
       = (JObj [(''results'', JArr [JNum 20, JNum 30]), (''totalCount'', JNum 4)], example_pool)
   \<and> getListPage example_controller (page_request (- 1) 5) = \<lparr> offset = - 1, limit = 5 \<rparr>
   \<and> positions_between example_pool (- 1) (- 1 + 5) = example_pool
   \<and> unconfirmed example_controller example_pool (page_request (- 1) 5)
       = (JObj [(''results'', JArr [JNum 40]), (''totalCount'', JNum 4)], example_pool)"
  by (simp add: unconfirmed_def js_slice_def positions_between_def Let_def upto.simps
        controller_example_defs page_request_def)

subsection \<open>One unconfirmed transaction\<close>

text \<open>
  C10: \<open>showUnconfirmed\<close> leaves the pool as it was and returns without throwing; its
  reply is the not-found error exactly when the snapshot filtered to the requested id is
  empty, and otherwise the resource of the first transaction of the filtered snapshot.
\<close>

theorem showUnconfirmed_not_found_iff_absent:
  "snd (showUnconfirmed env pool request) = pool
   \<and> (\<exists>r. fst (showUnconfirmed env pool request) = Inr r)
   \<and> (fst (showUnconfirmed env pool request) = Inr (Boom_notFound ''Transaction not found'')
        \<longleftrightarrow> whereId (getFromHighestPriority env pool) (params_id request) = [])
   \<and> (\<forall>t ts. whereId (getFromHighestPriority env pool) (params_id request) = t # ts
        \<longrightarrow> fst (showUnconfirmed env pool request)
              = Inr (Responded (respondWithResource env (tx_data t) TransactionResource
                                 (transform_flag request))))"
  by (cases "whereId (getFromHighestPriority env pool) (params_id request)")
     (simp_all add: showUnconfirmed_def has_def first_def Let_def)

theorem showUnconfirmed_not_found_iff_absent_witness:
  "(whereId (getFromHighestPriority example_controller example_pool)
        (params_id (example_request ''b''))
      = [\<lparr> tx_id = ''b'', tx_data = 20 \<rparr>]
    \<and> showUnconfirmed example_controller example_pool (example_request ''b'')
      = (Inr (Responded (JObj [(''data'', JNum 20)])), example_pool))
   \<and> (whereId (getFromHighestPriority example_controller example_pool)
        (params_id (example_request ''z'')) = []
    \<and> showUnconfirmed example_controller example_pool (example_request ''z'')
      = (Inr (Boom_notFound ''Transaction not found''), example_pool))"
proof -
  have b: "whereId (getFromHighestPriority example_controller example_pool)
             (params_id (example_request ''b'')) = [\<lparr> tx_id = ''b'', tx_data = 20 \<rparr>]"
    by (simp add: whereId_def controller_example_defs)
  have z: "whereId (getFromHighestPriority example_controller example_pool)
             (params_id (example_request ''z'')) = []"
    by (simp add: whereId_def controller_example_defs)
  from showUnconfirmed_not_found_iff_absent
         [of example_controller example_pool "example_request ''b''"] b
  have "snd (showUnconfirmed example_controller example_pool (example_request ''b'')) = example_pool
      \<and> fst (showUnconfirmed example_controller example_pool (example_request ''b''))
          = Inr (Responded (respondWithResource example_controller 20 TransactionResource
                              (transform_flag (example_request ''b''))))"
    by simp
  then have 1: "showUnconfirmed example_controller example_pool (example_request ''b'')
      = (Inr (Responded (JObj [(''data'', JNum 20)])), example_pool)"
    by (simp add: prod_eq_iff example_controller_def)
  from showUnconfirmed_not_found_iff_absent
         [of example_controller example_pool "example_request ''z''"] z
  have "snd (showUnconfirmed example_controller example_pool (example_request ''z'')) = example_pool
      \<and> fst (showUnconfirmed example_controller example_pool (example_request ''z''))
          = Inr (Boom_notFound ''Transaction not found'')"
    by simp
  then have 2: "showUnconfirmed example_controller example_pool (example_request ''z'')
      = (Inr (Boom_notFound ''Transaction not found''), example_pool)"
    by (simp add: prod_eq_iff)
  from b z 1 2 show ?thesis by simp
qed


section \<open>Properties of the transaction pool as specified\<close>

subsection \<open>Capacity of the store\<close>

lemma minimum_entry_None: "minimum_entry xs = None \<longleftrightarrow> xs = []"
  by (induction xs) (auto split: option.splits)

lemma minimum_entry_member: "minimum_entry xs = Some m \<Longrightarrow> m \<in> set xs"
  by (induction xs arbitrary: m) (auto split: option.splits if_splits)

lemma minimum_entry_least:
  "minimum_entry xs = Some m \<Longrightarrow> e \<in> set xs \<Longrightarrow> priority m \<le> priority e"
proof (induction xs arbitrary: m)
  case Nil
  then show ?case by simp
next
  case (Cons x xs)
  show ?case
  proof (cases "minimum_entry xs")
    case None
    then have "xs = []" by (simp add: minimum_entry_None)
    with Cons.prems None show ?thesis by simp
  next
    case (Some m')
    note IH = Cons.IH [OF Some]
    show ?thesis
    proof (cases "ranks_before m' x")
      case True
      with Some Cons.prems have m: "m = x" by simp
      from True have "priority x \<le> priority m'" by (auto simp: ranks_before_def)
      with IH Cons.prems(2) m show ?thesis by (auto intro: order_trans)
    next
      case False
      with Some Cons.prems have m: "m = m'" by simp
      from False have "priority m' \<le> priority x" by (auto simp: ranks_before_def)
      with IH Cons.prems(2) m show ?thesis by auto
    qed
  qed
qed

lemma admit_fields [simp]:
  "entries (admit tx s) = entries s @ [tx\<lparr>arrival := arrivals s\<rparr>]"
  "capacity (admit tx s) = capacity s"
  by (simp_all add: admit_def)

lemma remove_fields [simp]:
  "entries (snd (remove i s)) = filter (\<lambda>e. p_id e \<noteq> i) (entries s)"
  "capacity (snd (remove i s)) = capacity s"
  "arrivals (snd (remove i s)) = arrivals s"
  by (simp_all add: remove_def)

lemma filter_member_shorter:
  "m \<in> set xs \<Longrightarrow> length (filter (\<lambda>e. p_id e \<noteq> p_id m) xs) < length xs"
  by (induction xs) (auto simp: less_Suc_eq_le)

lemma add_capacity [simp]: "capacity (snd (add tx s)) = capacity s"
  by (simp add: add_def split: option.splits)

lemma add_within_capacity: "within_capacity s \<Longrightarrow> within_capacity (snd (add tx s))"
proof -
  assume inv: "within_capacity s"
  show ?thesis
  proof (cases "length (entries s) < capacity s")
    case True
    then show ?thesis by (simp add: add_def within_capacity_def)
  next
    case False
    show ?thesis
    proof (cases "minimum_entry (entries s)")
      case None
      with False inv show ?thesis by (simp add: add_def)
    next
      case (Some m)
      then have "m \<in> set (entries s)" by (rule minimum_entry_member)
      then have "length (filter (\<lambda>e. p_id e \<noteq> p_id m) (entries s)) < length (entries s)"
        by (rule filter_member_shorter)
      with False Some inv show ?thesis
        by (auto simp: add_def within_capacity_def)
    qed
  qed
qed

lemma remove_within_capacity: "within_capacity s \<Longrightarrow> within_capacity (snd (remove i s))"
  unfolding within_capacity_def
  by (simp add: order_trans [OF length_filter_le])

lemma apply_op_within_capacity: "within_capacity s \<Longrightarrow> within_capacity (apply_op op s)"
  by (cases op) (simp_all add: add_within_capacity remove_within_capacity)

lemma apply_op_capacity [simp]: "capacity (apply_op op s) = capacity s"
  by (cases op) simp_all

lemma fold_within_capacity:
  "within_capacity s \<Longrightarrow> within_capacity (fold apply_op ops s)"
  by (induction ops arbitrary: s) (simp_all add: apply_op_within_capacity)

lemma fold_capacity [simp]: "capacity (fold apply_op ops s) = capacity s"
  by (induction ops arbitrary: s) simp_all

lemma empty_store_within_capacity: "within_capacity (empty_store C)"
  by (simp add: within_capacity_def empty_store_def)

text \<open>
  C2, on the store as the specification describes it. In every state \<open>s\<close> reached from
  the empty store of capacity \<open>C\<close> by admissions (with their evictions) and removals, the
  pool holds at most \<open>C\<close> entries, and so it does after \<open>add tx\<close>. Below capacity \<open>add\<close>
  admits. At capacity, with \<open>m\<close> the minimum-priority entry (an entry of the pool that
  no entry undercuts), \<open>add\<close> evicts \<open>m\<close> and admits \<open>tx\<close> if the priority of \<open>tx\<close> is
  strictly higher, and otherwise rejects \<open>tx\<close> for capacity and leaves the store as it
  was; a full pool without entries (capacity 0) rejects.
\<close>

theorem add_keeps_pool_within_capacity:
  "let s = fold apply_op ops (empty_store C); r = add tx s in
     capacity s = C
   \<and> length (entries s) \<le> C
   \<and> length (entries (snd r)) \<le> C
   \<and> (length (entries s) < C \<longrightarrow>
         fst r = Admitted \<and> entries (snd r) = entries s @ [tx\<lparr>arrival := arrivals s\<rparr>])
   \<and> (length (entries s) = C \<longrightarrow>
         (minimum_entry (entries s) = None \<longrightarrow> fst r = Rejected Capacity \<and> snd r = s)
       \<and> (\<forall>m. minimum_entry (entries s) = Some m \<longrightarrow>
             m \<in> set (entries s)
           \<and> (\<forall>e \<in> set (entries s). priority m \<le> priority e)
           \<and> (priority m < priority tx \<longrightarrow>
                 fst r = AdmittedWithEviction (p_id m)
               \<and> entries (snd r)
                   = filter (\<lambda>e. p_id e \<noteq> p_id m) (entries s) @ [tx\<lparr>arrival := arrivals s\<rparr>])
           \<and> (\<not> priority m < priority tx \<longrightarrow> fst r = Rejected Capacity \<and> snd r = s)))"
proof -
  define s where "s = fold apply_op ops (empty_store C)"
  have cap: "capacity s = C" by (simp add: s_def empty_store_def)
  have inv: "within_capacity s"
    unfolding s_def by (rule fold_within_capacity [OF empty_store_within_capacity])
  have before: "length (entries s) \<le> C"
    using inv cap by (simp add: within_capacity_def)
  have after: "length (entries (snd (add tx s))) \<le> C"
    using add_within_capacity [OF inv, of tx] cap by (simp add: within_capacity_def)
  have below: "fst (add tx s) = Admitted
      \<and> entries (snd (add tx s)) = entries s @ [tx\<lparr>arrival := arrivals s\<rparr>]"
    if "length (entries s) < C"
    using that cap by (simp add: add_def)
  have none: "fst (add tx s) = Rejected Capacity \<and> snd (add tx s) = s"
    if "length (entries s) = C" "minimum_entry (entries s) = None"
    using that cap by (simp add: add_def)
  have some: "m \<in> set (entries s)
           \<and> (\<forall>e \<in> set (entries s). priority m \<le> priority e)
           \<and> (priority m < priority tx \<longrightarrow>
                 fst (add tx s) = AdmittedWithEviction (p_id m)
               \<and> entries (snd (add tx s))
                   = filter (\<lambda>e. p_id e \<noteq> p_id m) (entries s) @ [tx\<lparr>arrival := arrivals s\<rparr>])
           \<and> (\<not> priority m < priority tx \<longrightarrow>
                 fst (add tx s) = Rejected Capacity \<and> snd (add tx s) = s)"
    if "length (entries s) = C" "minimum_entry (entries s) = Some m" for m
    using that cap minimum_entry_member [OF that(2)] minimum_entry_least [OF that(2)]
    by (simp add: add_def)
  from cap before after below none some show ?thesis
    unfolding Let_def s_def [symmetric] by blast
qed

lemmas store_defs = add_def admit_def remove_def has_id_def ranks_before_def

lemma full_store_reached:
  "fold apply_op [Add (tx_with ''a'' 100 0), Add (tx_with ''b'' 100 0)] (empty_store 2) = full_store"
  by (simp add: store_defs empty_store_def full_store_def tx_with_def)

theorem add_keeps_pool_within_capacity_witness:
  "(length (entries (fold apply_op [Add (tx_with ''a'' 100 0)] (empty_store 2))) < 2
      \<and> fst (add (tx_with ''b'' 100 0) (fold apply_op [Add (tx_with ''a'' 100 0)] (empty_store 2)))
          = Admitted)
   \<and> (length (entries full_store) = 2
      \<and> minimum_entry (entries full_store) = Some (tx_with ''b'' 100 1)
      \<and> priority (tx_with ''b'' 100 1) < priority (tx_with ''c'' 150 0)
      \<and> fst (add (tx_with ''c'' 150 0) full_store) = AdmittedWithEviction ''b''
      \<and> entries (snd (add (tx_with ''c'' 150 0) full_store))
          = [tx_with ''a'' 100 0, tx_with ''c'' 150 2]
      \<and> \<not> priority (tx_with ''b'' 100 1) < priority (tx_with ''c'' 50 0)
      \<and> add (tx_with ''c'' 50 0) full_store = (Rejected Capacity, full_store))"
proof -
  let ?one = "fold apply_op [Add (tx_with ''a'' 100 0)] (empty_store 2)"
  let ?ops = "[Add (tx_with ''a'' 100 0), Add (tx_with ''b'' 100 0)]"
  have l1: "length (entries ?one) < 2"
    by (simp add: store_defs empty_store_def)
  from add_keeps_pool_within_capacity [of "[Add (tx_with ''a'' 100 0)]" 2 "tx_with ''b'' 100 0"] l1
  have 1: "fst (add (tx_with ''b'' 100 0) ?one) = Admitted"
    by (simp add: Let_def)
  have l2: "length (entries full_store) = 2"
    by (simp add: full_store_def)
  have m: "minimum_entry (entries full_store) = Some (tx_with ''b'' 100 1)"
    by (simp add: full_store_def tx_with_def ranks_before_def)
  have hi: "priority (tx_with ''b'' 100 1) < priority (tx_with ''c'' 150 0)"
    by (simp add: tx_with_def)
  have lo: "\<not> priority (tx_with ''b'' 100 1) < priority (tx_with ''c'' 50 0)"
    by (simp add: tx_with_def)
  from add_keeps_pool_within_capacity [of ?ops 2 "tx_with ''c'' 150 0", unfolded full_store_reached Let_def] l2 m hi
  have 2: "fst (add (tx_with ''c'' 150 0) full_store) = AdmittedWithEviction (p_id (tx_with ''b'' 100 1))
         \<and> entries (snd (add (tx_with ''c'' 150 0) full_store))
             = filter (\<lambda>e. p_id e \<noteq> p_id (tx_with ''b'' 100 1)) (entries full_store)
                 @ [(tx_with ''c'' 150 0)\<lparr>arrival := arrivals full_store\<rparr>]"
    by simp
  from add_keeps_pool_within_capacity [of ?ops 2 "tx_with ''c'' 50 0", unfolded full_store_reached Let_def] l2 m lo
  have 3: "fst (add (tx_with ''c'' 50 0) full_store) = Rejected Capacity
         \<and> snd (add (tx_with ''c'' 50 0) full_store) = full_store"
    by simp
  from 2 have e2: "fst (add (tx_with ''c'' 150 0) full_store) = AdmittedWithEviction ''b''
      \<and> entries (snd (add (tx_with ''c'' 150 0) full_store))
          = [tx_with ''a'' 100 0, tx_with ''c'' 150 2]"
    by (simp add: full_store_def tx_with_def)
  from 3 have e3: "add (tx_with ''c'' 50 0) full_store = (Rejected Capacity, full_store)"
    by (simp add: prod_eq_iff)
  from l1 1 l2 m hi lo e2 e3 show ?thesis by simp
qed

subsection \<open>Classification of a batch\<close>

lemma process_candidate_shapes:
  "process_candidate env c (st, r) = (st', r') \<Longrightarrow>
     (\<exists>e. r' = reject_candidate c e r)
   \<or> r' = r\<lparr>excess := excess r @ [c_id c]\<rparr>
   \<or> r' = r\<lparr>accept := accept r @ [c_id c]\<rparr>
   \<or> r' = r\<lparr>accept := accept r @ [c_id c], broadcast := broadcast r @ [c_id c]\<rparr>"
  unfolding process_candidate_def
  by (auto split: option.splits if_splits prod.splits add_result.splits)

lemma step_classified:
  assumes "classified P r" and "process_candidate env c (st, r) = (st', r')"
  shows "classified (insert (c_id c) P) r'"
  using process_candidate_shapes [OF assms(2)] assms(1)
  by (auto simp: classified_def reject_candidate_def subset_iff dom_def split: if_splits)

lemma step_separated:
  assumes "classified P r" and "separated r" and "c_id c \<notin> P"
      and "process_candidate env c (st, r) = (st', r')"
  shows "separated r'"
  using process_candidate_shapes [OF assms(4)] assms(1,2,3)
  by (auto simp: classified_def separated_def reject_candidate_def)

lemma fold_classified:
  "classified P r \<Longrightarrow> fold (process_candidate env) cs (st, r) = (st', r') \<Longrightarrow>
   classified (P \<union> c_id ` set cs) r'"
proof (induction cs arbitrary: P st r)
  case Nil
  then show ?case by simp
next
  case (Cons c cs)
  obtain st1 r1 where step: "process_candidate env c (st, r) = (st1, r1)"
    by (cases "process_candidate env c (st, r)")
  from step_classified [OF Cons.prems(1) step]
  have "classified (insert (c_id c) P) r1" .
  moreover from Cons.prems(2) step
  have "fold (process_candidate env) cs (st1, r1) = (st', r')" by simp
  ultimately have "classified (insert (c_id c) P \<union> c_id ` set cs) r'"
    by (rule Cons.IH)
  then show ?case by simp
qed

lemma fold_separated:
  "classified P r \<Longrightarrow> separated r \<Longrightarrow> distinct (map c_id cs) \<Longrightarrow> P \<inter> c_id ` set cs = {} \<Longrightarrow>
   fold (process_candidate env) cs (st, r) = (st', r') \<Longrightarrow> separated r'"
proof (induction cs arbitrary: P st r)
  case Nil
  then show ?case by simp
next
  case (Cons c cs)
  obtain st1 r1 where step: "process_candidate env c (st, r) = (st1, r1)"
    by (cases "process_candidate env c (st, r)")
  from Cons.prems(4) have fresh: "c_id c \<notin> P" by auto
  have c1: "classified (insert (c_id c) P) r1"
    by (rule step_classified [OF Cons.prems(1) step])
  have s1: "separated r1"
    by (rule step_separated [OF Cons.prems(1,2) fresh step])
  have d1: "distinct (map c_id cs)" using Cons.prems(3) by simp
  have p1: "insert (c_id c) P \<inter> c_id ` set cs = {}"
    using Cons.prems(3,4) by auto
  have f1: "fold (process_candidate env) cs (st1, r1) = (st', r')"
    using Cons.prems(5) step by simp
  show ?case by (rule Cons.IH [OF c1 s1 d1 p1 f1])
qed

lemma empty_result_classified: "classified {} empty_result"
  by (simp add: classified_def empty_result_def)

lemma empty_result_separated: "separated empty_result"
  by (simp add: separated_def empty_result_def)

text \<open>
  C1, on the processor as the specification describes it and on the controller's
  \<open>store\<close>. For every batch that \<open>process\<close> accepts, the accept, excess and invalid ids
  together are the ids of the batch, the broadcast ids are among the accepted ones, and
  every key of the errors map is an invalid id; when the ids of the batch are pairwise
  distinct the three sets are pairwise disjoint; and the response of \<open>store\<close> carries the
  four lists and the errors map of the processor.
\<close>

theorem process_classifies_every_candidate:
  assumes "process env (payload_transactions request) st = Inr (st', r)"
  shows "set (accept r) \<union> set (excess r) \<union> set (invalid r)
           = c_id ` set (payload_transactions request)
       \<and> set (broadcast r) \<subseteq> set (accept r)
       \<and> dom (errors r) \<subseteq> set (invalid r)
       \<and> (distinct (map c_id (payload_transactions request)) \<longrightarrow>
             set (accept r) \<inter> set (excess r) = {}
           \<and> set (accept r) \<inter> set (invalid r) = {}
           \<and> set (excess r) \<inter> set (invalid r) = {})
       \<and> store env st request
           = (Inr \<lparr> r_data = \<lparr> d_accept = accept r, d_broadcast = broadcast r,
                              d_excess = excess r, d_invalid = invalid r \<rparr>,
                    r_errors = errors r \<rparr>,
              st')"
proof -
  let ?cs = "payload_transactions request"
  from assms have f: "fold (process_candidate env) ?cs (st, empty_result) = (st', r)"
    by (simp add: process_def split: if_splits)
  from fold_classified [OF empty_result_classified f]
  have c: "classified (c_id ` set ?cs) r" by simp
  have s: "separated r" if "distinct (map c_id ?cs)"
    by (rule fold_separated [OF empty_result_classified empty_result_separated that _ f]) simp
  have resp: "store env st request
           = (Inr \<lparr> r_data = \<lparr> d_accept = accept r, d_broadcast = broadcast r,
                              d_excess = excess r, d_invalid = invalid r \<rparr>,
                    r_errors = errors r \<rparr>,
              st')"
    using assms by (simp add: store_def)
  from c s resp show ?thesis
    by (simp add: classified_def separated_def)
qed

lemmas processor_example_defs =
  example_processor_env_def fresh_state_def candidate_A_def candidate_B_def batch_request_def
  pending_A_def state_with_A_def empty_store_def

lemmas processor_defs =
  process_def process_candidate_def reject_candidate_def to_pending_def empty_result_def
  add_def admit_def has_id_def

theorem process_classifies_every_candidate_witness:
  "process example_processor_env (payload_transactions (batch_request [candidate_A, candidate_B]))
       (fresh_state 10)
     = Inr (state_with_A,
            \<lparr> accept = [''A''], broadcast = [''A''], excess = [], invalid = [''B''],
              errors = [''B'' \<mapsto> DeserializationError] \<rparr>)
   \<and> distinct (map c_id (payload_transactions (batch_request [candidate_A, candidate_B])))
   \<and> set [''A''] \<inter> set [''B''] = ({} :: string set)
   \<and> store example_processor_env (fresh_state 10)
        (batch_request [candidate_A, candidate_B])
       = (Inr \<lparr> r_data = \<lparr> d_accept = [''A''], d_broadcast = [''A''], d_excess = [],
                            d_invalid = [''B''] \<rparr>,
                r_errors = [''B'' \<mapsto> DeserializationError] \<rparr>,
          state_with_A)"
proof -
  let ?r = "\<lparr> accept = [''A''], broadcast = [''A''], excess = [], invalid = [''B''],
              errors = [''B'' \<mapsto> DeserializationError] \<rparr>"
  have p: "process example_processor_env
             (payload_transactions (batch_request [candidate_A, candidate_B])) (fresh_state 10)
           = Inr (state_with_A, ?r)"
    by (simp add: processor_defs processor_example_defs)
  have d: "distinct (map c_id (payload_transactions (batch_request [candidate_A, candidate_B])))"
    by (simp add: batch_request_def candidate_A_def candidate_B_def)
  from process_classifies_every_candidate [OF p] d p show ?thesis by simp
qed

text \<open>
  C1 as stated fails for a batch that submits the same transaction twice (scenario B of
  the specification): the first occurrence of \<open>A\<close> is accepted, the second is invalid
  with \<open>AlreadyExistsError\<close>, so the id \<open>A\<close> is both in accept and in invalid.
\<close>

theorem duplicate_id_accepted_and_invalid_counterexample:
  "process example_processor_env [candidate_A, candidate_A] (fresh_state 10)
     = Inr (state_with_A, duplicate_batch_result)
   \<and> ''A'' \<in> set (accept duplicate_batch_result) \<inter> set (invalid duplicate_batch_result)"
  by (simp add: processor_defs processor_example_defs duplicate_batch_result_def)

end
